theory Spec2Isabelle
  imports Main "HOL-Library.Sublist"
begin

section \<open>The pre-commit documentation gate (hooks/pre\_commit\_docs\_check.py)\<close>

text \<open>
  The hook reads a JSON payload, asks git for the staged files, runs the build
  tool and looks at the file system. All of these are inputs of the model: the
  payload is a value of \<open>hook_input\<close>, the rest is a record \<open>environment\<close>.
  The process ends in one of three ways, the type \<open>outcome\<close>: a silent exit
  with a status, the deny payload on standard output (and status 0), or an
  exception that nobody catches.

  A Python \<open>str\<close> is a sequence of code points, so a string is a list of
  natural numbers here and \<open>take 300\<close> counts what \<open>[:300]\<close> counts. The
  functions that depend on the Unicode tables (\<open>lower\<close>, \<open>capitalize\<close>,
  \<open>strip\<close>, and the classes \<open>\s\<close> and \<open>\b\<close> of \<open>re\<close>) are written out
  for the ASCII range, which is what paths and git commands consist of; code
  points from 128 on are left unchanged by the case mappings and belong to
  neither class.
\<close>

subsection \<open>Strings\<close>

type_synonym ustr = "nat list"

definition asc :: "string \<Rightarrow> ustr" where
  "asc s = map of_char s"

definition is_upper :: "nat \<Rightarrow> bool" where
  "is_upper c = (65 \<le> c \<and> c \<le> 90)"

definition is_lower :: "nat \<Rightarrow> bool" where
  "is_lower c = (97 \<le> c \<and> c \<le> 122)"

definition is_digit :: "nat \<Rightarrow> bool" where
  "is_digit c = (48 \<le> c \<and> c \<le> 57)"

text \<open>\<open>\w\<close>: a letter, a digit or the underscore.\<close>

definition is_word :: "nat \<Rightarrow> bool" where
  "is_word c = (is_upper c \<or> is_lower c \<or> is_digit c \<or> c = 95)"

text \<open>\<open>str.isspace\<close> and \<open>\s\<close>: tab, newline, vertical tab, form feed,
  carriage return, the four separators 28 to 31, and the space.\<close>

definition is_space :: "nat \<Rightarrow> bool" where
  "is_space c = ((9 \<le> c \<and> c \<le> 13) \<or> (28 \<le> c \<and> c \<le> 32))"

definition lower_cp :: "nat \<Rightarrow> nat" where
  "lower_cp c = (if is_upper c then c + 32 else c)"

definition upper_cp :: "nat \<Rightarrow> nat" where
  "upper_cp c = (if is_lower c then c - 32 else c)"

definition lower :: "ustr \<Rightarrow> ustr" where
  "lower s = map lower_cp s"

text \<open>\<open>str.capitalize\<close>: the first character upper-cased, the rest lower-cased.\<close>

definition capitalize :: "ustr \<Rightarrow> ustr" where
  "capitalize s = (case s of [] \<Rightarrow> [] | c # cs \<Rightarrow> upper_cp c # lower cs)"

definition strip :: "ustr \<Rightarrow> ustr" where
  "strip s = rev (dropWhile is_space (rev (dropWhile is_space s)))"

text \<open>\<open>s.split(sep)\<close> for a separator of one character: never an empty list,
  empty pieces are kept.\<close>

fun split_on :: "nat \<Rightarrow> ustr \<Rightarrow> ustr list" where
  "split_on sep [] = [[]]"
| "split_on sep (c # cs) =
     (if c = sep then [] # split_on sep cs
      else (case split_on sep cs of
              [] \<Rightarrow> [[c]]
            | p # ps \<Rightarrow> (c # p) # ps))"

text \<open>\<open>sep.join(xs)\<close>.\<close>

fun str_join :: "ustr \<Rightarrow> ustr list \<Rightarrow> ustr" where
  "str_join sep [] = []"
| "str_join sep [x] = x"
| "str_join sep (x # y # ys) = x @ sep @ str_join sep (y # ys)"

text \<open>\<open>str(n)\<close> for a length: the decimal digits.\<close>

fun str_of_nat :: "nat \<Rightarrow> ustr" where
  "str_of_nat n = (if n < 10 then [48 + n] else str_of_nat (n div 10) @ [48 + n mod 10])"

text \<open>\<open>os.path.join\<close> on POSIX, two components at a time: an absolute second
  component replaces the first.\<close>

definition os_path_join :: "ustr \<Rightarrow> ustr \<Rightarrow> ustr" where
  "os_path_join a b =
     (if prefix (asc ''/'') b then b
      else if a = [] \<or> suffix (asc ''/'') a then a @ b
      else a @ asc ''/'' @ b)"

text \<open>\<open>Path(f).stem\<close>: pathlib drops empty and \<open>.\<close> components, the name
  is the last one left, and the stem cuts the name at its last dot unless that
  dot is the first or the last character.\<close>

definition path_name :: "ustr \<Rightarrow> ustr" where
  "path_name f =
     (case filter (\<lambda>p. p \<noteq> [] \<and> p \<noteq> asc ''.'') (split_on 47 f) of
        [] \<Rightarrow> []
      | p # ps \<Rightarrow> last (p # ps))"

definition rfind :: "nat \<Rightarrow> ustr \<Rightarrow> nat option" where
  "rfind c s =
     (if c \<in> set s then Some (length s - 1 - length (takeWhile (\<lambda>x. x \<noteq> c) (rev s)))
      else None)"

definition path_stem :: "ustr \<Rightarrow> ustr" where
  "path_stem f =
     (let name = path_name f in
      case rfind 46 name of
        None \<Rightarrow> name
      | Some i \<Rightarrow> if 0 < i \<and> i < length name - 1 then take i name else name)"

subsection \<open>The hook's input, its environment and its outcome\<close>

text \<open>
  \<open>get_input\<close> parses standard input; a \<open>JSONDecodeError\<close> ends the process
  with status 1. Otherwise \<open>main\<close> reads
  \<open>input_data.get("tool_input", {}).get("command", "")\<close>: the payload carries
  the command when the key is there.
\<close>

datatype hook_input = Malformed | Payload "ustr option"

text \<open>What \<open>subprocess.run(..., timeout=90)\<close> gives for the build tool: a
  completed process with its return code and its standard error, or the
  exception \<open>subprocess.TimeoutExpired\<close>.\<close>

datatype run_result = Completed int ustr | TimedOut

datatype exn = TimeoutExpired

record environment =
  project_dir :: ustr
  git_returncode :: int
  git_stdout :: ustr
  path_exists :: "ustr \<Rightarrow> bool"
  gradle_run :: run_result
  maven_run :: run_result

datatype outcome = Exit int | Deny ustr | Raised exn

subsection \<open>The message literals\<close>

definition rule_line :: ustr where
  "rule_line = replicate 29 0x2501"

definition msg_catalog_missing :: ustr where
  "msg_catalog_missing =
     [0x1F4C4] @ asc '' ERROR_MESSAGES.md'' @ [0xAC00] @ asc '' '' @
     [0xC874, 0xC7AC, 0xD558, 0xC9C0] @ asc '' '' @ [0xC54A, 0xC2B5, 0xB2C8, 0xB2E4] @
     asc '' '' @ [0x2192] @ asc '' src/docs/ERROR_MESSAGES.md '' @ [0xC0DD, 0xC131] @
     asc '' '' @ [0xD544, 0xC694]"

definition msg_catalog_not_staged :: ustr where
  "msg_catalog_not_staged =
     [0x26A0, 0xFE0F] @ asc '' ERROR_MESSAGES.md'' @ [0xAC00] @ asc '' '' @
     [0xC774, 0xBC88] @ asc '' '' @ [0xCEE4, 0xBC0B, 0xC5D0] @ asc '' '' @
     [0xD3EC, 0xD568, 0xB418, 0xC9C0] @ asc '' '' @
     [0xC54A, 0xC558, 0xC2B5, 0xB2C8, 0xB2E4] @ asc ''. '' @ [0xC0C8] @ asc '' '' @
     [0xC5D0, 0xB7EC] @ asc '' '' @ [0xCF54, 0xB4DC] @ asc '' '' @
     [0xCD94, 0xAC00, 0xAC00] @ asc '' '' @ [0xD544, 0xC694, 0xD558, 0xC9C0] @ asc '' '' @
     [0xC54A, 0xC740, 0xC9C0] @ asc '' '' @ [0xD655, 0xC778, 0xD558, 0xC138, 0xC694]"

definition msg_no_docs_staged :: ustr where
  "msg_no_docs_staged =
     [0x26A0, 0xFE0F] @ asc '' '' @ [0xC774, 0xBC88] @ asc '' '' @
     [0xCEE4, 0xBC0B, 0xC5D0] @ asc '' src/docs/ '' @ [0xD558, 0xC704] @ asc '' '' @
     [0xBB38, 0xC11C, 0xAC00] @ asc '' '' @ [0xD558, 0xB098, 0xB3C4] @ asc '' '' @
     [0xD3EC, 0xD568, 0xB418, 0xC9C0] @ asc '' '' @
     [0xC54A, 0xC558, 0xC2B5, 0xB2C8, 0xB2E4] @ asc ''.'' @ [0xA] @ asc ''   '' @
     [0xAE30, 0xB2A5] @ asc '' '' @ [0xCF54, 0xB4DC, 0xB97C] @ asc '' '' @
     [0xBCC0, 0xACBD, 0xD588, 0xB2E4, 0xBA74] @ asc '' '' @ [0xAD00, 0xB828] @ asc '' '' @
     [0xBB38, 0xC11C, 0xB3C4] @ asc '' '' @ [0xD568, 0xAED8] @ asc '' '' @
     [0xCEE4, 0xBC0B, 0xD558, 0xC138, 0xC694] @ asc ''.''"

definition spec_suffix :: ustr where
  "spec_suffix = asc ''_'' @ [0xAE30, 0xB2A5, 0xBA85, 0xC138, 0xC11C] @ asc ''.md''"

definition spec_line :: "ustr \<Rightarrow> ustr" where
  "spec_line feature =
     asc ''  - '' @ [0xAE30, 0xB2A5, 0xBA85, 0xC138, 0xC11C] @ asc '': src/docs/'' @
     feature @ spec_suffix"

definition arch_line :: "ustr \<Rightarrow> ustr" where
  "arch_line feature =
     asc ''  - '' @ [0xC544, 0xD0A4, 0xD14D, 0xCC98] @ asc '' '' @ [0xC124, 0xBA85, 0xC11C] @
     asc '': src/docs/architecture/'' @ feature @ asc ''.md''"

definition guide_line :: "ustr \<Rightarrow> ustr" where
  "guide_line feature =
     asc ''  - '' @ [0xC0AC, 0xC6A9, 0xC790, 0xB9E4, 0xB274, 0xC5BC] @
     asc '': src/docs/user-guide/'' @ feature @ asc ''.md''"

definition feature_head :: "ustr \<Rightarrow> ustr" where
  "feature_head feature =
     [0x1F4C1] @ asc '' '' @ [0xAE30, 0xB2A5] @ asc '' '' @ [0x27] @ feature @
     [0x27] @ asc '' '' @ [0xAD00, 0xB828] @ asc '' '' @ [0xBB38, 0xC11C] @ asc '' '' @
     [0xB204, 0xB77D] @ asc '':'' @ [0xA]"

definition gradle_failed :: ustr where
  "gradle_failed = asc ''Gradle '' @ [0xBE4C, 0xB4DC] @ asc '' '' @ [0xC2E4, 0xD328] @ asc '':'' @ [0xA]"

definition maven_failed :: ustr where
  "maven_failed = asc ''Maven '' @ [0xBE4C, 0xB4DC] @ asc '' '' @ [0xC2E4, 0xD328] @ asc '':'' @ [0xA]"

definition cross_mark :: ustr where
  "cross_mark = [0x274C] @ asc '' ''"

definition no_features :: ustr where
  "no_features = [0xCD94, 0xCD9C] @ asc '' '' @ [0xC2E4, 0xD328]"

definition report_header :: "nat \<Rightarrow> ustr list \<Rightarrow> ustr" where
  "report_header n_java feature_names =
     [0x1F6AB] @ asc '' '' @ [0xCEE4, 0xBC0B] @ asc '' '' @ [0xC804] @ asc '' '' @
     [0xBB38, 0xC11C] @ asc '' '' @ [0xCCB4, 0xD06C, 0xB9AC, 0xC2A4, 0xD2B8] @ asc '' '' @
     [0xBBF8, 0xC644, 0xB8CC, 0xA] @ rule_line @ [0xA, 0xBCC0, 0xACBD, 0xB41C] @
     asc '' Java '' @ [0xD30C, 0xC77C] @ asc '': '' @ str_of_nat n_java @
     [0xAC1C, 0xA, 0xAC10, 0xC9C0, 0xB41C] @ asc '' '' @ [0xAE30, 0xB2A5] @ asc '': '' @
     (if feature_names \<noteq> [] then str_join (asc '', '') feature_names else no_features) @
     [0xA] @ rule_line @ [0xA, 0xA]"

definition report_footer :: ustr where
  "report_footer =
     [0xA, 0xA] @ rule_line @ [0xA, 0x1F4CB] @ asc '' '' @ [0xBB38, 0xC11C, 0xB97C] @
     asc '' '' @ [0xC791, 0xC131] @ asc ''/'' @ [0xC5C5, 0xB370, 0xC774, 0xD2B8, 0xD55C] @
     asc '' '' @ [0xD6C4] @ asc '' '' @ [0xB2E4, 0xC2DC] @ asc '' '' @
     [0xCEE4, 0xBC0B, 0xD558, 0xC138, 0xC694] @ asc ''.'' @ [0xA] @ asc ''   '' @
     [0xCC38, 0xACE0] @ asc '': CLAUDE.md'' @ [0xC758] @
     asc '' Feature Development Completion Checklist''"

subsection \<open>is\_git\_commit\<close>

text \<open>
  \<open>re.search(r'\bgit\s+commit\b', command)\<close>. \<open>git_commit_here s\<close> says that
  \<open>git\s+commit\b\<close> matches at the start of \<open>s\<close>: the run of white space after
  \<open>git\<close> cannot be shortened, since \<open>commit\<close> starts with no space. The
  search tries every position; the boundary before \<open>g\<close> holds at the start
  of the string and after a character that is no word character.
\<close>

definition git_commit_here :: "ustr \<Rightarrow> bool" where
  "git_commit_here s =
     (prefix (asc ''git'') s \<and>
      (let r = drop 3 s; r' = dropWhile is_space r in
       r' \<noteq> r \<and> prefix (asc ''commit'') r' \<and>
       (case drop 6 r' of [] \<Rightarrow> True | c # _ \<Rightarrow> \<not> is_word c)))"

fun re_search :: "bool \<Rightarrow> ustr \<Rightarrow> bool" where
  "re_search prev_word [] = False"
| "re_search prev_word (c # cs) =
     ((\<not> prev_word \<and> git_commit_here (c # cs)) \<or> re_search (is_word c) cs)"

definition is_git_commit :: "ustr \<Rightarrow> bool" where
  "is_git_commit command = re_search False command"

subsection \<open>get\_staged\_files\<close>

definition get_staged_files :: "environment \<Rightarrow> ustr list" where
  "get_staged_files e =
     (if git_returncode e \<noteq> 0 then []
      else map strip (filter (\<lambda>f. strip f \<noteq> []) (split_on 10 (strip (git_stdout e)))))"

subsection \<open>extract\_feature\_names\<close>

definition LAYERS :: "ustr list" where
  "LAYERS = [asc ''controller'', asc ''service'', asc ''repository'',
             asc ''dto'', asc ''entity'', asc ''mapper'']"

text \<open>
  The inner \<open>for i, part in enumerate(parts)\<close>: \<open>prev\<close> is \<open>parts[i - 1]\<close>,
  and \<open>None\<close> at \<open>i = 0\<close>. The result \<open>None\<close> means that the loop ended
  without \<open>break\<close>, so that its \<open>else\<close> branch runs; \<open>Some r\<close> means that it
  stopped at the first layer name, having added \<open>r\<close> (or nothing) to the set.
\<close>

fun scan_layers :: "ustr option \<Rightarrow> ustr list \<Rightarrow> ustr option option" where
  "scan_layers prev [] = None"
| "scan_layers prev (part # parts) =
     (if part \<in> set LAYERS then Some (map_option lower prev)
      else scan_layers (Some part) parts)"

text \<open>\<open>re.match(r'^([A-Z][a-z]+)', filename)\<close>, group 1.\<close>

definition match_capitalized :: "ustr \<Rightarrow> ustr option" where
  "match_capitalized s =
     (case s of
        [] \<Rightarrow> None
      | c # cs \<Rightarrow>
          if is_upper c \<and> takeWhile is_lower cs \<noteq> [] then Some (c # takeWhile is_lower cs)
          else None)"

text \<open>The body of the outer loop: what one file adds to \<open>feature_names\<close>.\<close>

definition feature_of :: "ustr \<Rightarrow> ustr option" where
  "feature_of f =
     (case scan_layers None (split_on 47 f) of
        Some r \<Rightarrow> r
      | None \<Rightarrow> map_option lower (match_capitalized (path_stem f)))"

text \<open>
  The result is a Python set. It is a list without duplicates here; Python
  iterates the set in an order of its own, so nothing below depends on the order.
\<close>

definition extract_feature_names :: "ustr list \<Rightarrow> ustr list" where
  "extract_feature_names java_files = remdups (List.map_filter feature_of java_files)"

subsection \<open>check\_build\<close>

definition check_build :: "environment \<Rightarrow> exn + ustr option" where
  "check_build e =
     (if path_exists e (os_path_join (project_dir e) (asc ''gradlew'')) then
        (case gradle_run e of
           TimedOut \<Rightarrow> Inl TimeoutExpired
         | Completed returncode stderr \<Rightarrow>
             if returncode \<noteq> 0 then Inr (Some (gradle_failed @ take 300 stderr))
             else Inr None)
      else if path_exists e (os_path_join (project_dir e) (asc ''pom.xml'')) then
        (case maven_run e of
           TimedOut \<Rightarrow> Inl TimeoutExpired
         | Completed returncode stderr \<Rightarrow>
             if returncode \<noteq> 0 then Inr (Some (maven_failed @ take 300 stderr))
             else Inr None)
      else Inr None)"

subsection \<open>check\_docs\<close>

definition docs_dir :: "environment \<Rightarrow> ustr" where
  "docs_dir e = os_path_join (os_path_join (project_dir e) (asc ''src'')) (asc ''docs'')"

definition global_errors :: "environment \<Rightarrow> ustr list \<Rightarrow> ustr list" where
  "global_errors e staged_files =
     (if \<not> path_exists e (os_path_join (docs_dir e) (asc ''ERROR_MESSAGES.md''))
      then [msg_catalog_missing]
      else if \<not> (\<exists>f \<in> set staged_files. sublist (asc ''ERROR_MESSAGES.md'') f)
      then [msg_catalog_not_staged]
      else [])"

definition spec_missing :: "environment \<Rightarrow> ustr \<Rightarrow> bool" where
  "spec_missing e feature =
     (\<not> (\<exists>p \<in> set [os_path_join (docs_dir e) (feature @ spec_suffix),
                     os_path_join (docs_dir e) (capitalize feature @ spec_suffix)].
           path_exists e p))"

definition arch_missing :: "environment \<Rightarrow> ustr \<Rightarrow> bool" where
  "arch_missing e feature =
     (\<not> path_exists e (os_path_join (os_path_join (docs_dir e) (asc ''architecture''))
                                     (feature @ asc ''.md'')))"

definition guide_missing :: "environment \<Rightarrow> ustr \<Rightarrow> bool" where
  "guide_missing e feature =
     (\<not> path_exists e (os_path_join (os_path_join (docs_dir e) (asc ''user-guide''))
                                     (feature @ asc ''.md'')))"

text \<open>The list \<open>missing\<close> at the end of one round of the feature loop.\<close>

definition missing_docs :: "environment \<Rightarrow> ustr \<Rightarrow> ustr list" where
  "missing_docs e feature =
     (if spec_missing e feature then [spec_line feature] else []) @
     (if arch_missing e feature then [arch_line feature] else []) @
     (if guide_missing e feature then [guide_line feature] else [])"

text \<open>What one round of the feature loop appends to \<open>errors\<close>.\<close>

definition feature_errors :: "environment \<Rightarrow> ustr \<Rightarrow> ustr list" where
  "feature_errors e feature =
     (let missing = missing_docs e feature in
      if missing \<noteq> [] then [feature_head feature @ str_join [0xA] missing] else [])"

definition check_docs :: "environment \<Rightarrow> ustr list \<Rightarrow> ustr list \<Rightarrow> ustr list" where
  "check_docs e feature_names staged_files =
     global_errors e staged_files @ concat (map (feature_errors e) feature_names)"

subsection \<open>check\_staged\_docs\<close>

definition check_staged_docs :: "ustr list \<Rightarrow> ustr option" where
  "check_staged_docs staged_files =
     (let doc_files = filter (\<lambda>f. prefix (asc ''src/docs/'') f) staged_files in
      if doc_files = [] then Some msg_no_docs_staged else None)"

subsection \<open>main\<close>

definition java_change :: "ustr \<Rightarrow> bool" where
  "java_change f =
     (suffix (asc ''.java'') f \<and> sublist (asc ''src/main'') f \<and>
      \<not> sublist (asc ''test'') (lower f))"

text \<open>The list \<open>all_errors\<close> once the three checks have run; \<open>if x:\<close> on an
  optional string lets neither \<open>None\<close> nor the empty string through.\<close>

definition all_errors :: "environment \<Rightarrow> ustr option \<Rightarrow> ustr list \<Rightarrow> ustr list \<Rightarrow> ustr list" where
  "all_errors e build_error java_changes staged_files =
     (case build_error of
        Some b \<Rightarrow> if b \<noteq> [] then [cross_mark @ b] else []
      | None \<Rightarrow> []) @
     (let feature_names = extract_feature_names java_changes in
      if feature_names \<noteq> [] then check_docs e feature_names staged_files else []) @
     (case check_staged_docs staged_files of
        Some w \<Rightarrow> if w \<noteq> [] then [w] else []
      | None \<Rightarrow> [])"

definition report :: "ustr list \<Rightarrow> ustr list \<Rightarrow> ustr" where
  "report java_changes errors =
     report_header (length java_changes) (extract_feature_names java_changes) @
     str_join [0xA, 0xA] errors @ report_footer"

definition main :: "environment \<Rightarrow> hook_input \<Rightarrow> outcome" where
  "main e input_data =
     (case input_data of
        Malformed \<Rightarrow> Exit 1
      | Payload c \<Rightarrow>
          let command = (case c of None \<Rightarrow> [] | Some s \<Rightarrow> s) in
          if \<not> is_git_commit command then Exit 0
          else
            let staged_files = get_staged_files e in
            if staged_files = [] then Exit 0
            else
              let java_changes = filter java_change staged_files in
              if java_changes = [] then Exit 0
              else
                (case check_build e of
                   Inl x \<Rightarrow> Raised x
                 | Inr build_error \<Rightarrow>
                     let errors = all_errors e build_error java_changes staged_files in
                     if errors \<noteq> [] then Deny (report java_changes errors)
                     else Exit 0))"

section \<open>Example runs\<close>

text \<open>A project at \<open>/repo\<close>: git answers with the given return code and lists
  the given paths, the given files exist, and either build tool ends as given.\<close>

definition example_env :: "int \<Rightarrow> ustr list \<Rightarrow> ustr list \<Rightarrow> run_result \<Rightarrow> environment" where
  "example_env rc staged files run =
     \<lparr>project_dir = asc ''/repo'', git_returncode = rc,
      git_stdout = str_join [10] staged @ [10],
      path_exists = (\<lambda>p. p \<in> set files),
      gradle_run = run, maven_run = run\<rparr>"

definition attendance_java :: ustr where
  "attendance_java =
     asc ''src/main/java/com/erp/attendance/controller/AttendanceController.java''"

definition module_java :: ustr where
  "module_java =
     asc ''service/src/main/java/com/erp/attendance/controller/AttendanceController.java''"

definition env_git_failed :: environment where
  "env_git_failed = example_env 128 [attendance_java] [] (Completed 0 [])"

definition env_timeout :: environment where
  "env_timeout = example_env 0 [attendance_java] [asc ''/repo/gradlew''] TimedOut"

section \<open>Properties\<close>

subsection \<open>The staged-file query\<close>

text \<open>
  C6. When git exits with a non-zero status, \<open>get_staged_files\<close> returns the
  empty list, and whenever the staged list is empty the hook exits with status 0
  and prints nothing, whatever the file system holds.
\<close>

theorem staged_query_fail_open:
  "(git_returncode e \<noteq> 0 \<longrightarrow> get_staged_files e = []) \<and>
   (get_staged_files e = [] \<longrightarrow> main e (Payload c) = Exit 0)"
  by (simp add: get_staged_files_def main_def Let_def)

theorem staged_query_fail_open_witness:
  "git_returncode env_git_failed \<noteq> 0 \<and> get_staged_files env_git_failed = [] \<and>
   main env_git_failed (Payload (Some (asc ''git commit -m wip''))) = Exit 0"
proof -
  have h: "git_returncode env_git_failed \<noteq> 0"
    by (simp add: env_git_failed_def example_env_def)
  from staged_query_fail_open [of env_git_failed "Some (asc ''git commit -m wip'')"] h
  show ?thesis by simp
qed

subsection \<open>Feature inference\<close>

text \<open>
  C10. When the first segment of a path is itself a layer name, the scan stops
  there without a feature, and the file name is not looked at: the file
  contributes nothing.
\<close>

theorem layer_at_position_zero:
  "split_on 47 f = part # parts \<Longrightarrow> part \<in> set LAYERS \<Longrightarrow>
   feature_of f = None \<and> extract_feature_names [f] = []"
  by (simp add: feature_of_def extract_feature_names_def List.map_filter_simps)

theorem layer_at_position_zero_witness:
  "split_on 47 module_java = asc ''service'' # tl (split_on 47 module_java) \<and>
   asc ''service'' \<in> set LAYERS \<and>
   match_capitalized (path_stem module_java) = Some (asc ''Attendance'') \<and>
   feature_of module_java = None \<and> extract_feature_names [module_java] = []"
proof -
  have h1: "split_on 47 module_java = asc ''service'' # tl (split_on 47 module_java)"
    by code_simp
  have h2: "asc ''service'' \<in> set LAYERS"
    by code_simp
  have h3: "match_capitalized (path_stem module_java) = Some (asc ''Attendance'')"
    by code_simp
  from layer_at_position_zero [OF h1 h2] h1 h2 h3 show ?thesis by simp
qed

subsection \<open>The build check\<close>

text \<open>
  C3. A build that runs into the timeout of 90 seconds: \<open>subprocess.run\<close> raises
  \<open>TimeoutExpired\<close>, \<open>check_build\<close> has no handler for it and neither has
  \<open>main\<close>, so the hook ends with the exception and gives no verdict.
\<close>

theorem build_timeout_escapes:
  "check_build env_timeout = Inl TimeoutExpired \<and>
   main env_timeout (Payload (Some (asc ''git commit -m wip''))) = Raised TimeoutExpired"
  by code_simp

end
